theory Spec2Isabelle
  imports Main
begin

section \<open>Values, module parameters, snapshots and results\<close>

text \<open>
  The module \<^verbatim>\<open>library/oci_autonomous_data_warehouse.py\<close> maps the parameters of an
  Ansible task onto lifecycle operations of an Autonomous Data Warehouse. Python values
  that occur in the parameters are strings, integers, booleans and tag dictionaries.
\<close>

datatype pyval = PStr string | PInt int | PBool bool | PDict "(string \<times> string) list"

text \<open>
  \<^verbatim>\<open>module.params\<close>: every option of the argument spec is a key, and an option the
  caller left out holds Python's \<^verbatim>\<open>None\<close>, which is \<open>None\<close> here. So
  \<^verbatim>\<open>module.params.get(k)\<close> and \<^verbatim>\<open>module.params[k]\<close> are both \<open>module k\<close>.
\<close>

type_synonym params = "string \<Rightarrow> pyval option"

text \<open>Truth value of a Python object, as tested by \<^verbatim>\<open>if autonomous_data_warehouse_id:\<close>.\<close>

fun truthy :: "pyval option \<Rightarrow> bool" where
  "truthy None = False"
| "truthy (Some (PStr s)) = (s \<noteq> [])"
| "truthy (Some (PInt i)) = (i \<noteq> 0)"
| "truthy (Some (PBool b)) = b"
| "truthy (Some (PDict d)) = (d \<noteq> [])"

text \<open>
  The resource as the service reports it (the \<^verbatim>\<open>data\<close> of a get response): the code
  reads its \<^verbatim>\<open>lifecycle_state\<close> and hands the whole object to \<^verbatim>\<open>oci.util.to_dict\<close>.
\<close>

record snapshot =
  ocid :: string
  lifecycle_state :: string
  attributes :: "(string \<times> pyval) list"

text \<open>\<^verbatim>\<open>oci.util.to_dict\<close> of the SDK: the object rendered as a dictionary of its fields.\<close>

definition to_dict :: "snapshot \<Rightarrow> (string \<times> pyval) list" where
  "to_dict s =
     (''id'', PStr (ocid s)) # (''lifecycle_state'', PStr (lifecycle_state s)) # attributes s"

text \<open>
  The dictionary handed to \<^verbatim>\<open>module.exit_json\<close>. Its second key is the resource type,
  which is \<^verbatim>\<open>"autonomous_data_warehouse"\<close> at every call of this module.
\<close>

record result =
  changed :: bool
  autonomous_data_warehouse :: "(string \<times> pyval) list"

section \<open>Failures\<close>

text \<open>
  \<^verbatim>\<open>ServiceError\<close> and \<^verbatim>\<open>ClientError\<close> are the SDK's exceptions (the code reads
  \<^verbatim>\<open>ex.message\<close> of the first and \<^verbatim>\<open>str(ex)\<close> of the second); \<^verbatim>\<open>TypeError\<close> is
  Python's own. A run of the module ends with \<^verbatim>\<open>exit_json\<close>, with \<^verbatim>\<open>fail_json(msg)\<close>,
  which leaves the process, or with an exception nobody caught.
\<close>

datatype exn = ServiceError string | ClientError string | TypeError string

datatype failure = FailJson string | Raised exn

section \<open>The database client and the trace of remote calls\<close>

text \<open>
  The operations of \<^verbatim>\<open>DatabaseClient\<close> that the module names:
  \<^verbatim>\<open>get_autonomous_data_warehouse\<close>, \<^verbatim>\<open>list_autonomous_data_warehouses\<close>,
  \<^verbatim>\<open>create_\<close>, \<^verbatim>\<open>update_\<close>, \<^verbatim>\<open>delete_\<close>, \<^verbatim>\<open>restore_\<close>, \<^verbatim>\<open>start_\<close> and
  \<^verbatim>\<open>stop_autonomous_data_warehouse\<close>.
\<close>

datatype client_fn =
    client_get | client_list | client_create | client_update
  | client_delete | client_restore | client_start | client_stop

text \<open>
  A keyword argument is a plain value (possibly \<^verbatim>\<open>None\<close>) or a details object of the
  SDK, given by its attributes and their values.
\<close>

datatype arg = Prim "pyval option" | Details "(string \<times> pyval option) list"

type_synonym kwargs = "(string \<times> arg) list"

text \<open>
  What reaches the remote side, in order: a call of a client operation, or a wait for one
  of a list of lifecycle states (\<open>None\<close>: the states the helper picks by itself).
\<close>

datatype event = Call client_fn kwargs | WaitFor "string list option"

fun is_mutating :: "event \<Rightarrow> bool" where
  "is_mutating (Call f kw) = (f \<noteq> client_get \<and> f \<noteq> client_list)"
| "is_mutating (WaitFor st) = False"

text \<open>
  Everything outside the module is a parameter: the attribute names of the SDK's three
  details classes (\<^verbatim>\<open>attribute_map\<close>), and what the service answers to a get, to a
  mutating call and to a wait. An answer \<open>Inl x\<close> is the exception the call raises.
\<close>

record database_client =
  create_attribute_map :: "string list"
  update_attribute_map :: "string list"
  restore_attribute_map :: "string list"
  get_answer :: "kwargs \<Rightarrow> exn + snapshot option"
  call_answer :: "client_fn \<Rightarrow> kwargs \<Rightarrow> exn + unit"
  wait_answer :: "string list option \<Rightarrow> exn + snapshot"

type_synonym 'a run = "event list \<times> (failure + 'a)"

section \<open>The helpers of \<^verbatim>\<open>module_utils/oracle\<close>\<close>

text \<open>
  Modelled from the spec: the body shared by the helpers that issue a mutating call and
  wait (\<^verbatim>\<open>create_and_wait\<close>, \<^verbatim>\<open>delete_and_wait\<close>, \<^verbatim>\<open>execute_function_and_wait\<close>,
  \<^verbatim>\<open>check_and_update_resource\<close>), which are not part of this file. Per the spec, an action
  is one call of the Resource Client followed by a wait for a terminal state, a failure
  of either aborts at once and reaches the caller as it is, and the result reports a
  change together with the snapshot the wait ends with.
\<close>

definition call_and_wait ::
  "database_client \<Rightarrow> client_fn \<Rightarrow> kwargs \<Rightarrow> string list option \<Rightarrow> result run" where
  "call_and_wait client f kw states =
     (case call_answer client f kw of
        Inl x \<Rightarrow> ([Call f kw], Inl (Raised x))
      | Inr u \<Rightarrow>
          (case wait_answer client states of
             Inl x \<Rightarrow> ([Call f kw, WaitFor states], Inl (Raised x))
           | Inr s \<Rightarrow>
               ([Call f kw, WaitFor states],
                Inr \<lparr>changed = True, autonomous_data_warehouse = to_dict s\<rparr>)))"

text \<open>
  Modelled from the spec: \<^verbatim>\<open>oci_utils.get_existing_resource(target_fn, module, **kwargs)\<close>,
  the spec's \<^verbatim>\<open>get(ref) -> ResourceSnapshot | NotFound\<close>: one get, whose answer is the
  snapshot or \<^verbatim>\<open>None\<close> when there is no such resource.
\<close>

definition get_existing_resource ::
  "database_client \<Rightarrow> client_fn \<Rightarrow> kwargs \<Rightarrow> snapshot option run" where
  "get_existing_resource client target_fn kw =
     ([Call target_fn kw],
      case get_answer client kw of Inl x \<Rightarrow> Inl (Raised x) | Inr r \<Rightarrow> Inr r)"

text \<open>
  Modelled from the spec: \<^verbatim>\<open>oci_db_utils.execute_function_and_wait\<close>. Calling
  \<^verbatim>\<open>function\<close> when it is \<^verbatim>\<open>None\<close> is Python's \<^verbatim>\<open>TypeError\<close>.
\<close>

definition execute_function_and_wait ::
  "database_client \<Rightarrow> client_fn option \<Rightarrow> kwargs \<Rightarrow> string list \<Rightarrow> result run" where
  "execute_function_and_wait client function kwargs_function states =
     (case function of
        None \<Rightarrow> ([], Inl (Raised (TypeError ''NoneType object is not callable'')))
      | Some f \<Rightarrow> call_and_wait client f kwargs_function (Some states))"

text \<open>Modelled from the spec: \<^verbatim>\<open>oci_utils.create_and_wait\<close>.\<close>

definition create_and_wait :: "database_client \<Rightarrow> client_fn \<Rightarrow> kwargs \<Rightarrow> result run" where
  "create_and_wait client create_fn kwargs_create =
     call_and_wait client create_fn kwargs_create None"

text \<open>
  Modelled from the spec: \<^verbatim>\<open>oci_utils.check_and_create_resource\<close>. The spec's row
  "Present, no ref: Create, using params as creation attributes" is a call of
  \<^verbatim>\<open>create_fn(**kwargs_create)\<close>; the spec says nothing of \<^verbatim>\<open>list_fn\<close>.
\<close>

definition check_and_create_resource ::
  "(database_client \<Rightarrow> params \<Rightarrow> result run) \<Rightarrow> database_client \<Rightarrow> params \<Rightarrow>
   client_fn \<Rightarrow> kwargs \<Rightarrow> result run" where
  "check_and_create_resource create_fn client module list_fn kwargs_list =
     create_fn client module"

text \<open>The attributes the caller supplied, among the given attribute names.\<close>

definition supplied :: "params \<Rightarrow> string list \<Rightarrow> (string \<times> pyval option) list" where
  "supplied module attrs =
     map (\<lambda>a. (a, module a)) (filter (\<lambda>a. module a \<noteq> None) attrs)"

text \<open>
  Modelled from the spec: \<^verbatim>\<open>oci_utils.check_and_update_resource\<close>. Per the spec, one
  Update is issued, and its details carry the attributes the caller supplied and no
  others; the primitive parameters are passed by their names.
\<close>

definition check_and_update_resource ::
  "database_client \<Rightarrow> client_fn \<Rightarrow> kwargs \<Rightarrow> client_fn \<Rightarrow> string list \<Rightarrow> string \<Rightarrow>
   params \<Rightarrow> string list \<Rightarrow> result run" where
  "check_and_update_resource client get_fn kwargs_get update_fn primitive_params_update
       details_name module update_attributes =
     call_and_wait client update_fn
       (map (\<lambda>p. (p, Prim (module p))) primitive_params_update @
        [(details_name, Details (supplied module update_attributes))])
       None"

text \<open>The identifier among keyword arguments, \<^verbatim>\<open>None\<close> when it is not there.\<close>

definition ref_of :: "kwargs \<Rightarrow> pyval option" where
  "ref_of kw =
     (case map_of kw ''autonomous_data_warehouse_id'' of
        Some (Prim v) \<Rightarrow> v
      | Some (Details d) \<Rightarrow> None
      | None \<Rightarrow> None)"

text \<open>
  Modelled from the spec: \<^verbatim>\<open>oci_utils.delete_and_wait\<close>. The module calls it whether or
  not an identifier was given, so both rows of the spec's table for Absent are the
  helper's: with a ref, Delete; without one, nothing is done and nothing has changed.
\<close>

definition delete_and_wait ::
  "database_client \<Rightarrow> client_fn \<Rightarrow> kwargs \<Rightarrow> client_fn \<Rightarrow> kwargs \<Rightarrow> result run" where
  "delete_and_wait client get_fn kwargs_get delete_fn kwargs_delete =
     (if ref_of kwargs_delete = None
      then ([], Inr \<lparr>changed = False, autonomous_data_warehouse = []\<rparr>)
      else call_and_wait client delete_fn kwargs_delete None)"

section \<open>The module\<close>

text \<open>
  \<^verbatim>\<open>create_autonomous_data_warehouse\<close>: every attribute of
  \<^verbatim>\<open>CreateAutonomousDataWarehouseDetails\<close> is set to \<^verbatim>\<open>module.params.get(attribute)\<close>.
\<close>

definition create_autonomous_data_warehouse :: "database_client \<Rightarrow> params \<Rightarrow> result run" where
  "create_autonomous_data_warehouse db_client module =
     (let create_autonomous_data_warehouse_details =
            map (\<lambda>attribute. (attribute, module attribute)) (create_attribute_map db_client)
      in create_and_wait db_client client_create
           [(''create_autonomous_data_warehouse_details'',
             Details create_autonomous_data_warehouse_details)])"

definition update_autonomous_data_warehouse :: "database_client \<Rightarrow> params \<Rightarrow> result run" where
  "update_autonomous_data_warehouse db_client module =
     check_and_update_resource db_client
       client_get
       [(''autonomous_data_warehouse_id'', Prim (module ''autonomous_data_warehouse_id''))]
       client_update
       [''autonomous_data_warehouse_id'']
       ''update_autonomous_data_warehouse_details''
       module
       (update_attribute_map db_client)"

text \<open>
  \<^verbatim>\<open>create_or_update_autonomous_data_warehouse\<close>: the two \<^verbatim>\<open>except\<close> clauses turn a
  \<^verbatim>\<open>ServiceError\<close> and a \<^verbatim>\<open>ClientError\<close> into \<^verbatim>\<open>fail_json\<close> with the exception's
  message; anything else passes through.
\<close>

definition create_or_update_autonomous_data_warehouse ::
  "database_client \<Rightarrow> params \<Rightarrow> result run" where
  "create_or_update_autonomous_data_warehouse db_client module =
     (let autonomous_data_warehouse_id = module ''autonomous_data_warehouse_id'';
          (tr, r) =
            (if truthy autonomous_data_warehouse_id
             then update_autonomous_data_warehouse db_client module
             else check_and_create_resource create_autonomous_data_warehouse db_client module
                    client_list [(''compartment_id'', Prim (module ''compartment_id''))])
      in case r of
           Inl (Raised (ServiceError m)) \<Rightarrow> (tr, Inl (FailJson m))
         | Inl (Raised (ClientError m)) \<Rightarrow> (tr, Inl (FailJson m))
         | Inl (Raised (TypeError m)) \<Rightarrow> (tr, Inl (Raised (TypeError m)))
         | Inl (FailJson m) \<Rightarrow> (tr, Inl (FailJson m))
         | Inr res \<Rightarrow> (tr, Inr res))"

definition delete_autonomous_data_warehouse :: "database_client \<Rightarrow> params \<Rightarrow> result run" where
  "delete_autonomous_data_warehouse db_client module =
     delete_and_wait db_client
       client_get
       [(''autonomous_data_warehouse_id'', Prim (module ''autonomous_data_warehouse_id''))]
       client_delete
       [(''autonomous_data_warehouse_id'', Prim (module ''autonomous_data_warehouse_id''))]"

definition restore_autonomous_data_warehouse :: "database_client \<Rightarrow> params \<Rightarrow> result run" where
  "restore_autonomous_data_warehouse db_client module =
     (let autonomous_data_warehouse_id = module ''autonomous_data_warehouse_id'';
          restore_autonomous_data_warehouse_details =
            map (\<lambda>attribute. (attribute, module attribute)) (restore_attribute_map db_client)
      in execute_function_and_wait db_client (Some client_restore)
           [(''autonomous_data_warehouse_id'', Prim autonomous_data_warehouse_id),
            (''restore_autonomous_data_warehouse_details'',
             Details restore_autonomous_data_warehouse_details)]
           [''AVAILABLE'', ''FAILED''])"

text \<open>
  \<^verbatim>\<open>perform_start_or_stop\<close>: the three locals are set by the state, and stay empty and
  \<^verbatim>\<open>None\<close> for any other state.
\<close>

definition perform_start_or_stop ::
  "database_client \<Rightarrow> snapshot \<Rightarrow> pyval option \<Rightarrow> params \<Rightarrow> result run" where
  "perform_start_or_stop db_client adw autonomous_data_warehouse_id module =
     (let state = module ''state'';
          (idempotent_lifecycle_state, target_state, lifecycle_func) =
            (if state = Some (PStr ''start'')
             then ([''AVAILABLE'', ''STARTING''], [''AVAILABLE''], Some client_start)
             else if state = Some (PStr ''stop'')
             then ([''STOPPED'', ''STOPPING''], [''STOPPED''], Some client_stop)
             else ([], [], None))
      in if lifecycle_state adw \<notin> set idempotent_lifecycle_state
         then execute_function_and_wait db_client lifecycle_func
                [(''autonomous_data_warehouse_id'', Prim autonomous_data_warehouse_id)]
                target_state
         else ([], Inr \<lparr>changed = False, autonomous_data_warehouse = to_dict adw\<rparr>))"

text \<open>
  The message of the \<^verbatim>\<open>ClientError\<close> of \<^verbatim>\<open>start_or_stop_autonomous_data_warehouse\<close>,
  built with \<^verbatim>\<open>+\<close>: Python raises \<^verbatim>\<open>TypeError\<close> unless the identifier is a string.
\<close>

fun not_found_message :: "pyval option \<Rightarrow> exn + string" where
  "not_found_message (Some (PStr s)) =
     Inr (''No Autonomous Data Warehouse with id '' @ s @ '' is found for update'')"
| "not_found_message v = Inl (TypeError ''can only concatenate str to str'')"

definition start_or_stop_autonomous_data_warehouse ::
  "database_client \<Rightarrow> params \<Rightarrow> result run" where
  "start_or_stop_autonomous_data_warehouse db_client module =
     (let autonomous_data_warehouse_id = module ''autonomous_data_warehouse_id'';
          (tr, r) = get_existing_resource db_client client_get
                      [(''autonomous_data_warehouse_id'', Prim autonomous_data_warehouse_id)]
      in case r of
           Inl e \<Rightarrow> (tr, Inl e)
         | Inr None \<Rightarrow>
             (case not_found_message autonomous_data_warehouse_id of
                Inl x \<Rightarrow> (tr, Inl (Raised x))
              | Inr m \<Rightarrow> (tr, Inl (Raised (ClientError m))))
         | Inr (Some adw) \<Rightarrow>
             (let (tr', r') =
                    perform_start_or_stop db_client adw autonomous_data_warehouse_id module
              in (tr @ tr', r')))"

text \<open>
  \<^verbatim>\<open>main\<close>, from the check of the SDK import on: the dispatch on
  \<^verbatim>\<open>module.params["state"]\<close>, whose last branch takes every other state.
\<close>

definition main :: "bool \<Rightarrow> database_client \<Rightarrow> params \<Rightarrow> result run" where
  "main HAS_OCI_PY_SDK db_client module =
     (if \<not> HAS_OCI_PY_SDK
      then ([], Inl (FailJson ''oci python sdk required for this module''))
      else
        (let state = module ''state''
         in if state = Some (PStr ''present'')
            then create_or_update_autonomous_data_warehouse db_client module
            else if state = Some (PStr ''absent'')
            then delete_autonomous_data_warehouse db_client module
            else if state = Some (PStr ''restore'')
            then restore_autonomous_data_warehouse db_client module
            else start_or_stop_autonomous_data_warehouse db_client module))"


section \<open>Sample inputs\<close>

definition sample_adw :: "string \<Rightarrow> snapshot" where
  "sample_adw st =
     \<lparr>ocid = ''ocid1.autonomousdwdatabase.oc1.iad.x'', lifecycle_state = st,
      attributes = [(''display_name'', PStr ''ansible-autonomous-db-warehouse'')]\<rparr>"

definition sample_client :: "snapshot option \<Rightarrow> database_client" where
  "sample_client found =
     \<lparr>create_attribute_map = [''compartment_id'', ''db_name'', ''cpu_core_count'',
        ''data_storage_size_in_tbs'', ''admin_password'', ''display_name'',
        ''license_model''],
      update_attribute_map = [''cpu_core_count'', ''data_storage_size_in_tbs'',
        ''display_name'', ''admin_password''],
      restore_attribute_map = [''timestamp''],
      get_answer = (\<lambda>kw. Inr found),
      call_answer = (\<lambda>f kw. Inr ()),
      wait_answer = (\<lambda>st. Inr (sample_adw (case st of Some (s # ss) \<Rightarrow> s | _ \<Rightarrow> ''AVAILABLE'')))\<rparr>"

definition sample_params :: "string \<Rightarrow> string option \<Rightarrow> params" where
  "sample_params st ident =
     (\<lambda>k. if k = ''state'' then Some (PStr st)
          else if k = ''autonomous_data_warehouse_id'' then map_option PStr ident
          else if k = ''cpu_core_count'' then Some (PInt 4)
          else if k = ''timestamp'' then Some (PStr ''2018-03-23T00:59:07.032Z'')
          else None)"

definition sample_faulty_client :: "exn \<Rightarrow> database_client" where
  "sample_faulty_client x = (sample_client None)\<lparr>call_answer := (\<lambda>f kw. Inl x)\<rparr>"

text \<open>The keyword arguments that carry only the identifier of the parameters.\<close>

abbreviation id_kwargs :: "params \<Rightarrow> kwargs" where
  "id_kwargs module \<equiv>
     [(''autonomous_data_warehouse_id'', Prim (module ''autonomous_data_warehouse_id''))]"

section \<open>Facts about the helpers and the dispatch\<close>

lemmas sample_defs = sample_params_def sample_client_def sample_adw_def sample_faulty_client_def

lemma call_and_wait_trace:
  "fst (call_and_wait client f kw states) =
     Call f kw # (case call_answer client f kw of Inl x \<Rightarrow> [] | Inr u \<Rightarrow> [WaitFor states])"
  by (simp add: call_and_wait_def split: sum.splits)

lemma call_and_wait_result:
  assumes "call_answer client f kw = Inr u" and "wait_answer client states = Inr s"
  shows "snd (call_and_wait client f kw states) =
     Inr \<lparr>changed = True, autonomous_data_warehouse = to_dict s\<rparr>"
  using assms by (simp add: call_and_wait_def)

lemma call_and_wait_mutating:
  assumes "f \<noteq> client_get" and "f \<noteq> client_list"
  shows "filter is_mutating (fst (call_and_wait client f kw states)) = [Call f kw]"
  using assms by (simp add: call_and_wait_trace split: sum.splits)

lemma main_start_or_stop:
  assumes "module ''state'' = Some (PStr ''start'') \<or> module ''state'' = Some (PStr ''stop'')"
  shows "main True db_client module = start_or_stop_autonomous_data_warehouse db_client module"
  using assms by (auto simp: main_def)

lemma start_or_stop_found:
  assumes "get_answer db_client (id_kwargs module) = Inr (Some adw)"
  shows "start_or_stop_autonomous_data_warehouse db_client module =
     (Call client_get (id_kwargs module) #
        fst (perform_start_or_stop db_client adw (module ''autonomous_data_warehouse_id'') module),
      snd (perform_start_or_stop db_client adw (module ''autonomous_data_warehouse_id'') module))"
  using assms
  by (simp add: start_or_stop_autonomous_data_warehouse_def get_existing_resource_def
      Let_def split_beta)

lemma create_or_update_trace:
  "fst (create_or_update_autonomous_data_warehouse db_client module) =
     fst (if truthy (module ''autonomous_data_warehouse_id'')
          then update_autonomous_data_warehouse db_client module
          else create_autonomous_data_warehouse db_client module)"
  by (simp add: create_or_update_autonomous_data_warehouse_def check_and_create_resource_def
      Let_def split_beta split: sum.splits failure.splits exn.splits)

lemma supplied_only:
  "(a, v) \<in> set (supplied module attrs) \<Longrightarrow> v \<noteq> None \<and> module a = v \<and> a \<in> set attrs"
  by (auto simp: supplied_def)

lemma supplied_omits:
  "module a = None \<Longrightarrow> a \<notin> fst ` set (supplied module attrs)"
  by (auto simp: supplied_def)

section \<open>Start and stop\<close>

text \<open>
  C1. Desired state start, and the get finds the resource in lifecycle state AVAILABLE or
  STARTING: the run consists of that get alone, so no mutating call is issued; the result
  reports no change, and the resource it returns is the snapshot of that get, as
  \<^verbatim>\<open>to_dict\<close> renders it.
\<close>

theorem start_when_running_is_noop:
  assumes "module ''state'' = Some (PStr ''start'')"
    and "get_answer db_client (id_kwargs module) = Inr (Some adw)"
    and "lifecycle_state adw = ''AVAILABLE'' \<or> lifecycle_state adw = ''STARTING''"
  shows "main True db_client module =
           ([Call client_get (id_kwargs module)],
            Inr \<lparr>changed = False, autonomous_data_warehouse = to_dict adw\<rparr>)
         \<and> filter is_mutating (fst (main True db_client module)) = []"
proof -
  have "perform_start_or_stop db_client adw (module ''autonomous_data_warehouse_id'') module =
      ([], Inr \<lparr>changed = False, autonomous_data_warehouse = to_dict adw\<rparr>)"
    using assms(1,3) by (auto simp: perform_start_or_stop_def)
  then show ?thesis
    using assms(1,2) by (simp add: main_start_or_stop start_or_stop_found)
qed

theorem start_when_running_is_noop_witness:
  "main True (sample_client (Some (sample_adw ''STARTING'')))
       (sample_params ''start'' (Some ''ocid1.x'')) =
     ([Call client_get [(''autonomous_data_warehouse_id'', Prim (Some (PStr ''ocid1.x'')))]],
      Inr \<lparr>changed = False, autonomous_data_warehouse = to_dict (sample_adw ''STARTING'')\<rparr>)"
  using start_when_running_is_noop [of "sample_params ''start'' (Some ''ocid1.x'')"
      "sample_client (Some (sample_adw ''STARTING''))" "sample_adw ''STARTING''"]
  by (simp add: sample_defs)

text \<open>
  C2. Desired state stop, and the get finds the resource. In lifecycle state STOPPED or
  STOPPING the run is that get alone, and the result reports no change and returns the
  snapshot. In any other state the get is followed by one call of stop with the
  identifier, which is the only mutating call, and, once that call is accepted, by a wait
  for the states [STOPPED] and nothing else.
\<close>

theorem stop_reconciliation:
  assumes "module ''state'' = Some (PStr ''stop'')"
    and "get_answer db_client (id_kwargs module) = Inr (Some adw)"
  shows "(lifecycle_state adw \<in> {''STOPPED'', ''STOPPING''} \<longrightarrow>
            main True db_client module =
              ([Call client_get (id_kwargs module)],
               Inr \<lparr>changed = False, autonomous_data_warehouse = to_dict adw\<rparr>))
       \<and> (lifecycle_state adw \<notin> {''STOPPED'', ''STOPPING''} \<longrightarrow>
            fst (main True db_client module) =
              Call client_get (id_kwargs module) # Call client_stop (id_kwargs module) #
                (case call_answer db_client client_stop (id_kwargs module) of
                   Inl x \<Rightarrow> []
                 | Inr u \<Rightarrow> [WaitFor (Some [''STOPPED''])])
          \<and> filter is_mutating (fst (main True db_client module)) =
              [Call client_stop (id_kwargs module)])"
proof -
  have m: "main True db_client module =
     (Call client_get (id_kwargs module) #
        fst (perform_start_or_stop db_client adw (module ''autonomous_data_warehouse_id'') module),
      snd (perform_start_or_stop db_client adw (module ''autonomous_data_warehouse_id'') module))"
    using assms by (simp add: main_start_or_stop start_or_stop_found)
  have idem: "lifecycle_state adw \<in> {''STOPPED'', ''STOPPING''} \<Longrightarrow>
      perform_start_or_stop db_client adw (module ''autonomous_data_warehouse_id'') module =
        ([], Inr \<lparr>changed = False, autonomous_data_warehouse = to_dict adw\<rparr>)"
    using assms(1) by (auto simp: perform_start_or_stop_def)
  have act: "lifecycle_state adw \<notin> {''STOPPED'', ''STOPPING''} \<Longrightarrow>
      perform_start_or_stop db_client adw (module ''autonomous_data_warehouse_id'') module =
        call_and_wait db_client client_stop (id_kwargs module) (Some [''STOPPED''])"
    using assms(1) by (auto simp: perform_start_or_stop_def execute_function_and_wait_def)
  show ?thesis
    by (simp add: m idem act call_and_wait_trace call_and_wait_mutating split: sum.splits)
qed

theorem stop_reconciliation_witness:
  "main True (sample_client (Some (sample_adw ''STOPPING'')))
       (sample_params ''stop'' (Some ''ocid1.x'')) =
     ([Call client_get [(''autonomous_data_warehouse_id'', Prim (Some (PStr ''ocid1.x'')))]],
      Inr \<lparr>changed = False, autonomous_data_warehouse = to_dict (sample_adw ''STOPPING'')\<rparr>)
   \<and> fst (main True (sample_client (Some (sample_adw ''AVAILABLE'')))
       (sample_params ''stop'' (Some ''ocid1.x''))) =
     [Call client_get [(''autonomous_data_warehouse_id'', Prim (Some (PStr ''ocid1.x'')))],
      Call client_stop [(''autonomous_data_warehouse_id'', Prim (Some (PStr ''ocid1.x'')))],
      WaitFor (Some [''STOPPED''])]"
  using stop_reconciliation [of "sample_params ''stop'' (Some ''ocid1.x'')"
      "sample_client (Some (sample_adw ''STOPPING''))" "sample_adw ''STOPPING''"]
    stop_reconciliation [of "sample_params ''stop'' (Some ''ocid1.x'')"
      "sample_client (Some (sample_adw ''AVAILABLE''))" "sample_adw ''AVAILABLE''"]
  by (simp add: sample_defs)

text \<open>
  C3. Desired state start, and the get finds the resource in a lifecycle state that is
  neither AVAILABLE nor STARTING: the get is followed by one call of start with the
  identifier, which is the only mutating call, and, once that call is accepted, by a wait
  for the states [AVAILABLE] and nothing else.
\<close>

theorem start_when_not_running:
  assumes "module ''state'' = Some (PStr ''start'')"
    and "get_answer db_client (id_kwargs module) = Inr (Some adw)"
    and "lifecycle_state adw \<noteq> ''AVAILABLE''" and "lifecycle_state adw \<noteq> ''STARTING''"
  shows "fst (main True db_client module) =
           Call client_get (id_kwargs module) # Call client_start (id_kwargs module) #
             (case call_answer db_client client_start (id_kwargs module) of
                Inl x \<Rightarrow> []
              | Inr u \<Rightarrow> [WaitFor (Some [''AVAILABLE''])])
       \<and> filter is_mutating (fst (main True db_client module)) =
           [Call client_start (id_kwargs module)]"
proof -
  have m: "main True db_client module =
     (Call client_get (id_kwargs module) #
        fst (perform_start_or_stop db_client adw (module ''autonomous_data_warehouse_id'') module),
      snd (perform_start_or_stop db_client adw (module ''autonomous_data_warehouse_id'') module))"
    using assms by (simp add: main_start_or_stop start_or_stop_found)
  have act: "perform_start_or_stop db_client adw (module ''autonomous_data_warehouse_id'') module =
        call_and_wait db_client client_start (id_kwargs module) (Some [''AVAILABLE''])"
    using assms(1,3,4) by (auto simp: perform_start_or_stop_def execute_function_and_wait_def)
  show ?thesis
    by (simp add: m act call_and_wait_trace call_and_wait_mutating split: sum.splits)
qed

theorem start_when_not_running_witness:
  "fst (main True (sample_client (Some (sample_adw ''STOPPED'')))
       (sample_params ''start'' (Some ''ocid1.x''))) =
     [Call client_get [(''autonomous_data_warehouse_id'', Prim (Some (PStr ''ocid1.x'')))],
      Call client_start [(''autonomous_data_warehouse_id'', Prim (Some (PStr ''ocid1.x'')))],
      WaitFor (Some [''AVAILABLE''])]"
  using start_when_not_running [of "sample_params ''start'' (Some ''ocid1.x'')"
      "sample_client (Some (sample_adw ''STOPPED''))" "sample_adw ''STOPPED''"]
  by (simp add: sample_defs)

text \<open>
  C4. Desired state start and no identifier among the parameters, at a client whose get
  finds nothing. \<^verbatim>\<open>start_or_stop_autonomous_data_warehouse\<close> has no check of the
  identifier: it passes \<^verbatim>\<open>None\<close> to the get and then builds the message of its
  \<^verbatim>\<open>ClientError\<close> by concatenating \<^verbatim>\<open>None\<close>, so the run ends in a \<^verbatim>\<open>TypeError\<close>
  and not in an error that reports the missing identifier.
\<close>

theorem start_without_id_type_error:
  "main True (sample_client None) (sample_params ''start'' None) =
     ([Call client_get [(''autonomous_data_warehouse_id'', Prim None)]],
      Inl (Raised (TypeError ''can only concatenate str to str'')))"
  by (simp add: main_def start_or_stop_autonomous_data_warehouse_def get_existing_resource_def
      sample_defs)

text \<open>
  C10. Desired state start or stop with an identifier, and the get finds nothing: the
  run is that get alone, so no mutating call is issued, and it ends with a
  \<^verbatim>\<open>ClientError\<close> that nobody catches, whose message has the identifier in it.
\<close>

theorem start_or_stop_not_found:
  assumes "module ''state'' = Some (PStr ''start'') \<or> module ''state'' = Some (PStr ''stop'')"
    and "module ''autonomous_data_warehouse_id'' = Some (PStr ident)"
    and "get_answer db_client (id_kwargs module) = Inr None"
  shows "main True db_client module =
           ([Call client_get [(''autonomous_data_warehouse_id'', Prim (Some (PStr ident)))]],
            Inl (Raised (ClientError
              (''No Autonomous Data Warehouse with id '' @ ident @ '' is found for update''))))
       \<and> filter is_mutating (fst (main True db_client module)) = []"
  using assms
  by (auto simp: main_def start_or_stop_autonomous_data_warehouse_def get_existing_resource_def)

theorem start_or_stop_not_found_witness:
  "main True (sample_client None) (sample_params ''stop'' (Some ''ocid1.x'')) =
     ([Call client_get [(''autonomous_data_warehouse_id'', Prim (Some (PStr ''ocid1.x'')))]],
      Inl (Raised (ClientError ''No Autonomous Data Warehouse with id ocid1.x is found for update'')))"
  using start_or_stop_not_found [of "sample_params ''stop'' (Some ''ocid1.x'')" "''ocid1.x''"
      "sample_client None"]
  by (simp add: sample_defs)

section \<open>Restore\<close>

text \<open>
  C6. Desired state restore: whatever the resource's state, the run starts with one call
  of restore that carries the identifier of the parameters and a details object holding,
  for each attribute of \<^verbatim>\<open>RestoreAutonomousDataWarehouseDetails\<close>, the parameter of that
  name, so the timestamp of the parameters when \<^verbatim>\<open>timestamp\<close> is such an attribute. Once
  the call is accepted, a wait for the states [AVAILABLE, FAILED] follows and nothing
  else, and the snapshot the wait ends with is returned, with a change reported.
\<close>

theorem restore_reconciliation:
  assumes "module ''state'' = Some (PStr ''restore'')"
  shows "fst (main True db_client module) =
           Call client_restore
             [(''autonomous_data_warehouse_id'', Prim (module ''autonomous_data_warehouse_id'')),
              (''restore_autonomous_data_warehouse_details'',
               Details (map (\<lambda>a. (a, module a)) (restore_attribute_map db_client)))] #
           (case call_answer db_client client_restore
                   [(''autonomous_data_warehouse_id'', Prim (module ''autonomous_data_warehouse_id'')),
                    (''restore_autonomous_data_warehouse_details'',
                     Details (map (\<lambda>a. (a, module a)) (restore_attribute_map db_client)))] of
              Inl x \<Rightarrow> []
            | Inr u \<Rightarrow> [WaitFor (Some [''AVAILABLE'', ''FAILED''])])
       \<and> (''timestamp'' \<in> set (restore_attribute_map db_client) \<longrightarrow>
            map_of (map (\<lambda>a. (a, module a)) (restore_attribute_map db_client)) ''timestamp'' =
              Some (module ''timestamp''))
       \<and> (\<forall>u s. call_answer db_client client_restore
                   [(''autonomous_data_warehouse_id'', Prim (module ''autonomous_data_warehouse_id'')),
                    (''restore_autonomous_data_warehouse_details'',
                     Details (map (\<lambda>a. (a, module a)) (restore_attribute_map db_client)))] = Inr u
                \<and> wait_answer db_client (Some [''AVAILABLE'', ''FAILED'']) = Inr s \<longrightarrow>
            snd (main True db_client module) =
              Inr \<lparr>changed = True, autonomous_data_warehouse = to_dict s\<rparr>)"
proof -
  have m: "main True db_client module =
      call_and_wait db_client client_restore
        [(''autonomous_data_warehouse_id'', Prim (module ''autonomous_data_warehouse_id'')),
         (''restore_autonomous_data_warehouse_details'',
          Details (map (\<lambda>a. (a, module a)) (restore_attribute_map db_client)))]
        (Some [''AVAILABLE'', ''FAILED''])"
    using assms
    by (simp add: main_def restore_autonomous_data_warehouse_def execute_function_and_wait_def)
  have ts: "''timestamp'' \<in> set (restore_attribute_map db_client) \<Longrightarrow>
      map_of (map (\<lambda>a. (a, module a)) (restore_attribute_map db_client)) ''timestamp'' =
        Some (module ''timestamp'')"
    by (simp add: map_of_map_restrict)
  show ?thesis
    by (simp add: m ts call_and_wait_trace call_and_wait_result)
qed

theorem restore_reconciliation_witness:
  "main True (sample_client None) (sample_params ''restore'' (Some ''x'')) =
     ([Call client_restore
         [(''autonomous_data_warehouse_id'', Prim (Some (PStr ''x''))),
          (''restore_autonomous_data_warehouse_details'',
           Details [(''timestamp'', Some (PStr ''2018-03-23T00:59:07.032Z''))])],
       WaitFor (Some [''AVAILABLE'', ''FAILED''])],
      Inr \<lparr>changed = True, autonomous_data_warehouse = to_dict (sample_adw ''AVAILABLE'')\<rparr>)"
  using restore_reconciliation [of "sample_params ''restore'' (Some ''x'')" "sample_client None"]
  by (simp add: sample_defs prod_eq_iff)

section \<open>Present and absent\<close>

text \<open>
  C7. Desired state present with an identifier that Python takes as true: exactly one
  mutating call is issued, an update with that identifier, and every attribute in its
  details is an attribute of \<^verbatim>\<open>UpdateAutonomousDataWarehouseDetails\<close> that the caller
  supplied, with the caller's value; an attribute the caller left unset is not in them.
\<close>

theorem present_with_id_updates_supplied_only:
  assumes "module ''state'' = Some (PStr ''present'')"
    and "truthy (module ''autonomous_data_warehouse_id'')"
  shows "\<exists>d. filter is_mutating (fst (main True db_client module)) =
               [Call client_update
                  [(''autonomous_data_warehouse_id'', Prim (module ''autonomous_data_warehouse_id'')),
                   (''update_autonomous_data_warehouse_details'', Details d)]]
            \<and> (\<forall>a v. (a, v) \<in> set d \<longrightarrow>
                   v \<noteq> None \<and> module a = v \<and> a \<in> set (update_attribute_map db_client))
            \<and> (\<forall>a. module a = None \<longrightarrow> a \<notin> fst ` set d)"
proof -
  let ?d = "supplied module (update_attribute_map db_client)"
  have "fst (main True db_client module) =
      fst (call_and_wait db_client client_update
        [(''autonomous_data_warehouse_id'', Prim (module ''autonomous_data_warehouse_id'')),
         (''update_autonomous_data_warehouse_details'', Details ?d)] None)"
    using assms
    by (simp add: main_def create_or_update_trace update_autonomous_data_warehouse_def
        check_and_update_resource_def)
  then have "filter is_mutating (fst (main True db_client module)) =
      [Call client_update
         [(''autonomous_data_warehouse_id'', Prim (module ''autonomous_data_warehouse_id'')),
          (''update_autonomous_data_warehouse_details'', Details ?d)]]"
    by (simp add: call_and_wait_mutating)
  moreover have "\<forall>a v. (a, v) \<in> set ?d \<longrightarrow>
      v \<noteq> None \<and> module a = v \<and> a \<in> set (update_attribute_map db_client)"
    using supplied_only by blast
  moreover have "\<forall>a. module a = None \<longrightarrow> a \<notin> fst ` set ?d"
    using supplied_omits by blast
  ultimately show ?thesis by blast
qed

theorem present_with_id_updates_supplied_only_witness:
  "filter is_mutating
     (fst (main True (sample_client None) (sample_params ''present'' (Some ''ocid1.x'')))) =
   [Call client_update
      [(''autonomous_data_warehouse_id'', Prim (Some (PStr ''ocid1.x''))),
       (''update_autonomous_data_warehouse_details'',
        Details [(''cpu_core_count'', Some (PInt 4))])]]"
proof -
  obtain d where d: "filter is_mutating
        (fst (main True (sample_client None) (sample_params ''present'' (Some ''ocid1.x'')))) =
      [Call client_update
         [(''autonomous_data_warehouse_id'', Prim (Some (PStr ''ocid1.x''))),
          (''update_autonomous_data_warehouse_details'', Details d)]]"
    using present_with_id_updates_supplied_only
      [of "sample_params ''present'' (Some ''ocid1.x'')" "sample_client None"]
    by (auto simp: sample_defs)
  have "filter is_mutating
        (fst (main True (sample_client None) (sample_params ''present'' (Some ''ocid1.x'')))) =
      [Call client_update
         [(''autonomous_data_warehouse_id'', Prim (Some (PStr ''ocid1.x''))),
          (''update_autonomous_data_warehouse_details'',
           Details [(''cpu_core_count'', Some (PInt 4))])]]"
    by (simp add: main_def create_or_update_trace update_autonomous_data_warehouse_def
        check_and_update_resource_def call_and_wait_mutating supplied_def sample_defs)
  with d show ?thesis by simp
qed

text \<open>
  C8. Desired state present with no identifier (or one that Python takes as false):
  exactly one mutating call is issued, a create, and its details hold the attributes of
  \<^verbatim>\<open>CreateAutonomousDataWarehouseDetails\<close> and no others, each with the value the
  parameters have for it (\<^verbatim>\<open>None\<close> where the caller gave none).
\<close>

theorem present_without_id_creates:
  assumes "module ''state'' = Some (PStr ''present'')"
    and "\<not> truthy (module ''autonomous_data_warehouse_id'')"
  shows "\<exists>d. filter is_mutating (fst (main True db_client module)) =
               [Call client_create [(''create_autonomous_data_warehouse_details'', Details d)]]
            \<and> map fst d = create_attribute_map db_client
            \<and> (\<forall>a \<in> set (create_attribute_map db_client). map_of d a = Some (module a))"
proof -
  let ?d = "map (\<lambda>a. (a, module a)) (create_attribute_map db_client)"
  have "fst (main True db_client module) =
      fst (call_and_wait db_client client_create
        [(''create_autonomous_data_warehouse_details'', Details ?d)] None)"
    using assms
    by (simp add: main_def create_or_update_trace create_autonomous_data_warehouse_def
        create_and_wait_def)
  then have "filter is_mutating (fst (main True db_client module)) =
      [Call client_create [(''create_autonomous_data_warehouse_details'', Details ?d)]]"
    by (simp add: call_and_wait_mutating)
  moreover have "map fst ?d = create_attribute_map db_client"
    by (simp add: comp_def)
  moreover have "\<forall>a \<in> set (create_attribute_map db_client). map_of ?d a = Some (module a)"
    by (simp add: map_of_map_restrict)
  ultimately show ?thesis by blast
qed

theorem present_without_id_creates_witness:
  "\<exists>d. filter is_mutating
         (fst (main True (sample_client None) (sample_params ''present'' None))) =
       [Call client_create [(''create_autonomous_data_warehouse_details'', Details d)]]
     \<and> map fst d = [''compartment_id'', ''db_name'', ''cpu_core_count'',
          ''data_storage_size_in_tbs'', ''admin_password'', ''display_name'', ''license_model'']
     \<and> map_of d ''cpu_core_count'' = Some (Some (PInt 4))
     \<and> map_of d ''display_name'' = Some None"
proof -
  have st: "sample_params ''present'' None ''state'' = Some (PStr ''present'')"
    and no_id: "\<not> truthy (sample_params ''present'' None ''autonomous_data_warehouse_id'')"
    by (simp_all add: sample_params_def)
  from present_without_id_creates [OF st no_id, of "sample_client None"]
  obtain d where d: "filter is_mutating
        (fst (main True (sample_client None) (sample_params ''present'' None))) =
      [Call client_create [(''create_autonomous_data_warehouse_details'', Details d)]]
    \<and> map fst d = create_attribute_map (sample_client None)
    \<and> (\<forall>a \<in> set (create_attribute_map (sample_client None)).
        map_of d a = Some (sample_params ''present'' None a))" ..
  note tr = d [THEN conjunct1]
  note keys = d [THEN conjunct2, THEN conjunct1]
  note vals = d [THEN conjunct2, THEN conjunct2]
  from keys have k: "map fst d = [''compartment_id'', ''db_name'', ''cpu_core_count'',
      ''data_storage_size_in_tbs'', ''admin_password'', ''display_name'', ''license_model'']"
    by (simp add: sample_client_def)
  have "''cpu_core_count'' \<in> set (create_attribute_map (sample_client None))"
    by (simp add: sample_client_def)
  with vals have c: "map_of d ''cpu_core_count'' =
      Some (sample_params ''present'' None ''cpu_core_count'')"
    by (rule bspec)
  have "''display_name'' \<in> set (create_attribute_map (sample_client None))"
    by (simp add: sample_client_def)
  with vals have n: "map_of d ''display_name'' =
      Some (sample_params ''present'' None ''display_name'')"
    by (rule bspec)
  from c have c': "map_of d ''cpu_core_count'' = Some (Some (PInt 4))"
    by (simp add: sample_params_def)
  from n have n': "map_of d ''display_name'' = Some None"
    by (simp add: sample_params_def)
  show ?thesis
    by (rule exI [of _ d]) (simp only: tr k c' n' simp_thms)
qed

text \<open>
  C9. Desired state absent and no identifier among the parameters: no call is issued at
  all, and the result reports no change.
\<close>

theorem absent_without_id_is_noop:
  assumes "module ''state'' = Some (PStr ''absent'')"
    and "module ''autonomous_data_warehouse_id'' = None"
  shows "main True db_client module =
           ([], Inr \<lparr>changed = False, autonomous_data_warehouse = []\<rparr>)"
  using assms
  by (simp add: main_def delete_autonomous_data_warehouse_def delete_and_wait_def ref_of_def)

theorem absent_without_id_is_noop_witness:
  "main True (sample_client None) (sample_params ''absent'' None) =
     ([], Inr \<lparr>changed = False, autonomous_data_warehouse = []\<rparr>)"
  using absent_without_id_is_noop [of "sample_params ''absent'' None" "sample_client None"]
  by (simp add: sample_defs)

section \<open>Failures of the remote calls\<close>











end
